theory Spec2Isabelle
  imports Main "HOL-Library.Word" "HOL-Library.Signed_Division"
begin

section \<open>Machine integers and errors\<close>

text \<open>
  Go's \<^verbatim>\<open>int64\<close> is a 64-bit word read as two's complement (\<open>sint\<close>); its
  \<^verbatim>\<open>+\<close> and \<^verbatim>\<open>-\<close> wrap around silently and its comparisons are the signed ones
  (\<open>\<le>s\<close>, \<open><s\<close>).  Go's \<^verbatim>\<open>int\<close> is taken at its 64-bit width (the width on every
  64-bit platform), so that \<^verbatim>\<open>int64(t.ExpiresIn)\<close> is the identity.
\<close>

type_synonym int64 = "64 word"
type_synonym go_int = "64 word"

text \<open>
  Go's integer quotient \<^verbatim>\<open>a / b\<close> truncates towards zero.  It is only used with the
  constant divisor 10 below, where it neither panics nor overflows.
\<close>

definition go_quo :: "int64 \<Rightarrow> int64 \<Rightarrow> int64" where
  "go_quo a b = word_of_int (sint a sdiv sint b)"

text \<open>
  Error values.  \<open>ExternalError\<close> stands for an error produced outside the package
  (net/http, io, encoding/json, the context, an injected callback); \<open>Errorf_wrap p e\<close> is
  \<^verbatim>\<open>fmt.Errorf(p + ": %w", e)\<close>; \<open>Errorf_msg m\<close> is \<^verbatim>\<open>fmt.Errorf(m)\<close> with a constant
  message; \<open>Errorf_status p status body\<close> is \<^verbatim>\<open>fmt.Errorf(p + " %d: %s", status, body)\<close>;
  \<open>OAuthError code description\<close> is the package's own \<^verbatim>\<open>*OAuthError\<close>.
  A nil \<^verbatim>\<open>error\<close> is \<open>None :: error option\<close>.
\<close>

datatype error =
    ExternalError string
  | Errorf_wrap string error
  | Errorf_msg string
  | Errorf_status string int string
  | OAuthError string string

datatype panic = NilPointerDereference | NilMapAssignment

section \<open>Token model\<close>

text \<open>
  \<^verbatim>\<open>copilot.CopilotToken\<close> (oauth.go) and \<^verbatim>\<open>oauth.Token\<close> (token.go).  The two structs
  share field names in the source; the fields of \<^verbatim>\<open>oauth.Token\<close> that would clash carry
  the prefix \<open>oauth_\<close> here.  A pointer that may be nil is an \<open>option\<close>.
\<close>

record CopilotToken =
  Token :: string
  ExpiresAt :: int64

record oauth_Token =
  AccessToken :: string
  RefreshToken :: string
  ExpiresIn :: go_int
  oauth_ExpiresAt :: int64
  oauth_CopilotToken :: string
  CopilotExpiresAt :: int64

text \<open>
  \<^verbatim>\<open>func (t *CopilotToken) IsExpired() bool\<close>.  The reading of the clock,
  \<^verbatim>\<open>time.Now().Unix()\<close>, is the parameter \<open>now\<close>.
\<close>

definition CopilotToken_IsExpired :: "int64 \<Rightarrow> CopilotToken option \<Rightarrow> bool" where
  "CopilotToken_IsExpired now t =
     (case t of
        None \<Rightarrow> True
      | Some tk \<Rightarrow>
          if Token tk = [] then True
          else (ExpiresAt tk - 60) \<le>s now)"

text \<open>\<^verbatim>\<open>func (t *Token) IsCopilotTokenExpired() bool\<close>.\<close>

definition IsCopilotTokenExpired :: "int64 \<Rightarrow> oauth_Token option \<Rightarrow> bool" where
  "IsCopilotTokenExpired now t =
     (case t of
        None \<Rightarrow> True
      | Some tk \<Rightarrow>
          if oauth_CopilotToken tk = [] then True
          else (CopilotExpiresAt tk - 60) \<le>s now)"

text \<open>
  \<^verbatim>\<open>func (t *Token) IsExpired() bool\<close>.  The method has no nil check: reading
  \<^verbatim>\<open>t.ExpiresAt\<close> through a nil receiver panics.  It does not look at any token string.
\<close>

definition Token_IsExpired :: "int64 \<Rightarrow> oauth_Token option \<Rightarrow> panic + bool" where
  "Token_IsExpired now t =
     (case t of
        None \<Rightarrow> Inl NilPointerDereference
      | Some tk \<Rightarrow> Inr ((oauth_ExpiresAt tk - go_quo (ExpiresIn tk) 10) \<le>s now))"

section \<open>Polling engine\<close>

text \<open>
  What the network does is the environment of the model.  An HTTP exchange
  (\<^verbatim>\<open>http.NewRequestWithContext\<close>, \<^verbatim>\<open>client.Do\<close>, \<^verbatim>\<open>io.ReadAll\<close>) ends in one of
  four ways: the request cannot be built, the round trip fails, the body cannot be read
  (the status is already known), or a status and a body arrive.
\<close>

datatype http_result =
    NewRequestFailed error
  | DoFailed error
  | ReadFailed int error
  | Responded int string

text \<open>
  The anonymous result struct of \<^verbatim>\<open>pollOnce\<close>; \<^verbatim>\<open>json.Unmarshal\<close> into it is a parameter
  of the model (a function from the body to an error or the decoded struct).
\<close>

record token_response =
  resp_AccessToken :: string
  resp_TokenType :: string
  resp_Scope :: string
  resp_Error :: string
  resp_ErrorDesc :: string
  resp_Interval :: go_int

text \<open>\<^verbatim>\<open>func pollOnce(ctx, deviceCode) (string, int, error)\<close>, on the outcome of its request.\<close>

definition pollOnce ::
  "(string \<Rightarrow> error + token_response) \<Rightarrow> http_result \<Rightarrow> string \<times> go_int \<times> error option" where
  "pollOnce unmarshal r =
     (case r of
        NewRequestFailed e \<Rightarrow> ([], 0, Some (Errorf_wrap ''failed to create token request'' e))
      | DoFailed e \<Rightarrow> ([], 0, Some (Errorf_wrap ''failed to poll for token'' e))
      | ReadFailed status e \<Rightarrow> ([], 0, Some (Errorf_wrap ''failed to read token response'' e))
      | Responded status body \<Rightarrow>
          (case unmarshal body of
             Inl e \<Rightarrow> ([], 0, Some (Errorf_wrap ''failed to parse token response'' e))
           | Inr result \<Rightarrow>
               if resp_Error result \<noteq> []
               then ([], resp_Interval result,
                     Some (OAuthError (resp_Error result) (resp_ErrorDesc result)))
               else (resp_AccessToken result, 0, None)))"

text \<open>
  The body of the loop of \<^verbatim>\<open>PollForToken\<close> after the wait: one call of \<^verbatim>\<open>pollOnce\<close> and
  the decision taken on its result.  \<open>Inl interval'\<close> is \<^verbatim>\<open>continue\<close> with the interval
  to use from now on, \<open>Inr (token, err)\<close> is \<^verbatim>\<open>return token, err\<close>.  The type assertion
  \<^verbatim>\<open>err.(*OAuthError)\<close> succeeds on the constructor \<open>OAuthError\<close> only.
\<close>

definition poll_attempt ::
  "(string \<Rightarrow> error + token_response) \<Rightarrow> http_result \<Rightarrow> go_int \<Rightarrow>
     go_int + (string \<times> error option)" where
  "poll_attempt unmarshal r interval =
     (case pollOnce unmarshal r of
        (token, newInterval, Some err) \<Rightarrow>
          (case err of
             OAuthError code desc \<Rightarrow>
               if code = ''authorization_pending'' then Inl interval
               else if code = ''slow_down''
                 then Inl (if interval <s newInterval then newInterval else interval + 5)
               else Inr ([], Some err)
           | _ \<Rightarrow> Inr ([], Some err))
      | (token, newInterval, None) \<Rightarrow>
          if token \<noteq> [] then Inr (token, None) else Inl interval)"

text \<open>
  The \<^verbatim>\<open>select\<close> of the inter-attempt wait receives from \<^verbatim>\<open>ctx.Done()\<close> or from the
  timer; which one is the environment's choice.  \<open>CtxDone e\<close> carries \<^verbatim>\<open>ctx.Err()\<close>, which
  is non-nil once the context is done.
\<close>

datatype select_result = TimerFired | CtxDone error

record poll_env =
  unmarshal_poll :: "string \<Rightarrow> error + token_response"
  http_outcome :: "nat \<Rightarrow> http_result"
  select_outcome :: "nat \<Rightarrow> select_result"

text \<open>
  What a run does, in order: \<open>PollAttempt k\<close> is the network call of iteration \<open>k\<close>,
  \<open>WaitElapsed d\<close> a wait started with the interval \<open>d\<close> (in seconds) that ran to its
  end, \<open>WaitCancelled d e\<close> a wait started with the interval \<open>d\<close> and cut short by the
  context.  The timer of a wait is \<^verbatim>\<open>time.After(time.Duration(interval) * time.Second)\<close>:
  a number of nanoseconds in an \<^verbatim>\<open>int64\<close>, \<open>wait_duration\<close> below.
\<close>

datatype poll_action =
    PollAttempt nat
  | WaitElapsed go_int
  | WaitCancelled go_int error

text \<open>
  The loop \<^verbatim>\<open>for i := 0; ; i++\<close> of \<^verbatim>\<open>PollForToken\<close>.  It has no bound of its own (the
  server may answer \<^verbatim>\<open>authorization_pending\<close> for ever), so the model takes fuel: the
  number of iterations it may still start.  The result \<open>None\<close> says that the fuel ran out
  while the loop was still polling.  The counter \<open>i\<close> is the Go \<^verbatim>\<open>int\<close> \<open>of_nat k\<close>.
\<close>

fun poll_loop ::
  "poll_env \<Rightarrow> nat \<Rightarrow> nat \<Rightarrow> go_int \<Rightarrow> poll_action list \<times> (string \<times> error option) option" where
  "poll_loop env 0 k interval = ([], None)"
| "poll_loop env (Suc n) k interval =
     (let waits = (0 <s (of_nat k :: go_int)) in
      case (if waits then select_outcome env k else TimerFired) of
        CtxDone e \<Rightarrow> ([WaitCancelled interval e], Some ([], Some e))
      | TimerFired \<Rightarrow>
          (let pre = (if waits then [WaitElapsed interval] else []) @ [PollAttempt k] in
           case poll_attempt (unmarshal_poll env) (http_outcome env k) interval of
             Inr ret \<Rightarrow> (pre, Some ret)
           | Inl interval' \<Rightarrow>
               (case poll_loop env n (Suc k) interval' of
                  (tr, res) \<Rightarrow> (pre @ tr, res))))"

text \<open>
  \<^verbatim>\<open>func PollForToken(ctx, deviceCode string, interval int) (string, error)\<close>.  The device
  code only goes into the request of \<^verbatim>\<open>pollOnce\<close>, whose outcome is the environment's.
\<close>

definition PollForToken ::
  "poll_env \<Rightarrow> nat \<Rightarrow> string \<Rightarrow> go_int \<Rightarrow> poll_action list \<times> (string \<times> error option) option" where
  "PollForToken env fuel deviceCode interval =
     poll_loop env fuel 0 (if interval <s 5 then 5 else interval)"


definition wait_duration :: "go_int \<Rightarrow> int64" where
  "wait_duration interval = interval * 1000000000"


text \<open>
  A scripted server for the examples: attempt \<open>k\<close> is answered with the \<open>k\<close>-th body of a
  list (\<^verbatim>\<open>authorization_pending\<close> once the list is used up), the bodies are decoded by
  \<open>scripted_unmarshal\<close>, and the context is cancelled during the wait before attempt
  \<open>c\<close> when \<open>cancel_at = Some c\<close>.
\<close>

definition scripted_response :: "string \<Rightarrow> string \<Rightarrow> go_int \<Rightarrow> token_response" where
  "scripted_response token err suggested =
     \<lparr>resp_AccessToken = token, resp_TokenType = [], resp_Scope = [],
      resp_Error = err, resp_ErrorDesc = [], resp_Interval = suggested\<rparr>"

definition scripted_unmarshal :: "string \<Rightarrow> error + token_response" where
  "scripted_unmarshal body =
     (if body = ''authorization_pending'' then Inr (scripted_response [] ''authorization_pending'' 0)
      else if body = ''slow_down'' then Inr (scripted_response [] ''slow_down'' 0)
      else if body = ''slow_down 30'' then Inr (scripted_response [] ''slow_down'' 30)
      else if body = ''access_denied'' then Inr (scripted_response [] ''access_denied'' 0)
      else if body = ''token'' then Inr (scripted_response ''gho_token'' [] 0)
      else if body = ''{}'' then Inr (scripted_response [] [] 0)
      else Inl (ExternalError ''invalid character''))"

definition scripted_env :: "string list \<Rightarrow> nat option \<Rightarrow> poll_env" where
  "scripted_env bodies cancel_at =
     \<lparr>unmarshal_poll = scripted_unmarshal,
      http_outcome =
        (\<lambda>k. Responded 200 (if k < length bodies then bodies ! k else ''authorization_pending'')),
      select_outcome =
        (\<lambda>k. if cancel_at = Some k then CtxDone (ExternalError ''context canceled'')
             else TimerFired)\<rparr>"

section \<open>Token exchanger\<close>

text \<open>
  HTTP headers.  Go's \<^verbatim>\<open>http.Header\<close> is a map from canonical keys to lists of values; it
  is an association list with distinct keys here.  \<^verbatim>\<open>Header.Set\<close> replaces the values of
  a key by one value.  Every key this package sets is already in canonical form.
\<close>

type_synonym header = "(string \<times> string list) list"

fun header_Set :: "string \<Rightarrow> string \<Rightarrow> header \<Rightarrow> header" where
  "header_Set k v [] = [(k, [v])]"
| "header_Set k v ((k', vs) # h) =
     (if k' = k then (k, [v]) # h else (k', vs) # header_Set k v h)"

definition header_Get :: "string \<Rightarrow> header \<Rightarrow> string" where
  "header_Get k h =
     (case map_of h k of None \<Rightarrow> [] | Some [] \<Rightarrow> [] | Some (v # vs) \<Rightarrow> v)"

text \<open>\<^verbatim>\<open>for k, v := range headers { req.Header.Set(k, v) }\<close>; the keys are distinct.\<close>

fun set_headers :: "(string \<times> string) list \<Rightarrow> header \<Rightarrow> header" where
  "set_headers [] h = h"
| "set_headers ((k, v) # kvs) h = set_headers kvs (header_Set k v h)"

definition CopilotHeaders :: "(string \<times> string) list" where
  "CopilotHeaders =
     [(''User-Agent'', ''GitHubCopilotChat/0.32.4''),
      (''Editor-Version'', ''vscode/1.105.1''),
      (''Editor-Plugin-Version'', ''copilot-chat/0.32.4''),
      (''Copilot-Integration-Id'', ''vscode-chat'')]"

text \<open>
  The headers of the request that \<^verbatim>\<open>ExchangeForCopilotToken\<close> sends through
  \<^verbatim>\<open>doRequest\<close> (no body): \<^verbatim>\<open>Accept\<close>, then the cloned \<^verbatim>\<open>CopilotHeaders\<close> with the
  bearer authorization added.
\<close>

definition exchange_request :: "string \<Rightarrow> header" where
  "exchange_request githubToken =
     set_headers (CopilotHeaders @ [(''Authorization'', ''Bearer '' @ githubToken)])
       (header_Set ''Accept'' ''application/json'' [])"

text \<open>
  \<^verbatim>\<open>func ExchangeForCopilotToken(ctx, githubToken) (*CopilotToken, error)\<close>, on the outcome
  of its request; \<^verbatim>\<open>json.Unmarshal\<close> into a \<^verbatim>\<open>CopilotToken\<close> is a parameter.  Both ways
  in which \<^verbatim>\<open>doRequest\<close> fails get the same wrapping; the body is read before the status
  is looked at.
\<close>

definition ExchangeForCopilotToken ::
  "(string \<Rightarrow> error + CopilotToken) \<Rightarrow> http_result \<Rightarrow> error + CopilotToken" where
  "ExchangeForCopilotToken unmarshal r =
     (case r of
        NewRequestFailed e \<Rightarrow> Inl (Errorf_wrap ''failed to exchange for copilot token'' e)
      | DoFailed e \<Rightarrow> Inl (Errorf_wrap ''failed to exchange for copilot token'' e)
      | ReadFailed status e \<Rightarrow> Inl (Errorf_wrap ''failed to read copilot token response'' e)
      | Responded status body \<Rightarrow>
          if status = 200 then
            (case unmarshal body of
               Inl e \<Rightarrow> Inl (Errorf_wrap ''failed to parse copilot token response'' e)
             | Inr result \<Rightarrow> Inr result)
          else if status = 401 then
            Inl (Errorf_msg ''github authentication failed: invalid or expired token'')
          else if status = 403 then
            Inl (Errorf_msg
              ''no copilot access: your GitHub account doesn't have an active Copilot subscription'')
          else if status = 429 then
            Inl (Errorf_msg ''rate limited: please wait and try again'')
          else Inl (Errorf_status ''copilot token exchange failed with status'' status body))"

text \<open>A decoder of token bodies for the examples.\<close>

definition scripted_unmarshal_token :: "string \<Rightarrow> error + CopilotToken" where
  "scripted_unmarshal_token body =
     (if body = ''fresh'' then Inr \<lparr>Token = ''tid=fresh'', ExpiresAt = 1700003600\<rparr>
      else if body = ''{}'' then Inr \<lparr>Token = [], ExpiresAt = 0\<rparr>
      else Inl (ExternalError ''invalid character''))"

section \<open>Caching transport\<close>

text \<open>
  \<^verbatim>\<open>type Transport struct\<close>.  The provider callback takes no argument, so it is the pair
  it returns when called; the saver is nil or a function to an error or nil; the base
  round tripper is a function of the method, URL and headers of the request it is given
  (by the contract of \<^verbatim>\<open>http.RoundTripper\<close> it does not modify that request).  The mutex
  has no counterpart: the model runs one caller at a time, and each of
  \<^verbatim>\<open>getValidToken\<close>'s two critical sections is one step.
\<close>

record http_response =
  resp_status :: int
  resp_body :: string

record Transport =
  tokenProvider :: "oauth_Token option \<times> error option"
  tokenSaver :: "(oauth_Token \<Rightarrow> error option) option"
  base :: "string \<Rightarrow> string \<Rightarrow> header \<Rightarrow> error + http_response"
  copilotToken :: "CopilotToken option"

text \<open>
  The environment of one call: the three readings of the clock (in the check under the read
  lock, in the check under the write lock, in the check of the persisted token) and the
  token endpoint with its decoder.
\<close>

record transport_env =
  now_fast :: int64
  now_locked :: int64
  now_persisted :: int64
  token_endpoint :: "header \<Rightarrow> http_result"
  unmarshal_token :: "string \<Rightarrow> error + CopilotToken"

text \<open>What a call does to the world outside the transport, in order.\<close>

datatype effect =
    ProviderCalled
  | ExchangeCalled string
  | SaverCalled oauth_Token
  | Warned error
  | BaseCalled string string header

text \<open>\<^verbatim>\<open>t.copilotToken != nil && !t.copilotToken.IsExpired()\<close>.\<close>

definition cached_valid :: "int64 \<Rightarrow> Transport \<Rightarrow> bool" where
  "cached_valid now t =
     (case copilotToken t of
        None \<Rightarrow> False
      | Some c \<Rightarrow> \<not> CopilotToken_IsExpired now (Some c))"

definition cached_value :: "Transport \<Rightarrow> string" where
  "cached_value t = (case copilotToken t of None \<Rightarrow> [] | Some c \<Rightarrow> Token c)"

text \<open>
  The part of \<^verbatim>\<open>getValidToken\<close> that runs under the write lock, from the double check to
  the end.  The result is the returned pair (an error or the token), the transport
  afterwards and the effects.
\<close>

definition refresh_locked ::
  "transport_env \<Rightarrow> Transport \<Rightarrow> (error + string) \<times> Transport \<times> effect list" where
  "refresh_locked env t =
     (if cached_valid (now_locked env) t then (Inr (cached_value t), t, [])
      else
        (case tokenProvider t of
           (tok, Some err) \<Rightarrow> (Inl err, t, [ProviderCalled])
         | (None, None) \<Rightarrow>
             (Inl (OAuthError ''no_token'' ''no GitHub OAuth token available''), t,
              [ProviderCalled])
         | (Some oauthToken, None) \<Rightarrow>
             if RefreshToken oauthToken = [] then
               (Inl (OAuthError ''no_token'' ''no GitHub OAuth token available''), t,
                [ProviderCalled])
             else if \<not> IsCopilotTokenExpired (now_persisted env) (Some oauthToken) then
               (Inr (oauth_CopilotToken oauthToken),
                t\<lparr>copilotToken :=
                    Some \<lparr>Token = oauth_CopilotToken oauthToken,
                          ExpiresAt = CopilotExpiresAt oauthToken\<rparr>\<rparr>,
                [ProviderCalled])
             else
               (case ExchangeForCopilotToken (unmarshal_token env)
                       (token_endpoint env (exchange_request (RefreshToken oauthToken))) of
                  Inl err \<Rightarrow>
                    (Inl err, t, [ProviderCalled, ExchangeCalled (RefreshToken oauthToken)])
                | Inr fresh \<Rightarrow>
                    (Inr (Token fresh), t\<lparr>copilotToken := Some fresh\<rparr>,
                     [ProviderCalled, ExchangeCalled (RefreshToken oauthToken)] @
                     (case tokenSaver t of
                        None \<Rightarrow> []
                      | Some save \<Rightarrow>
                          (let updated = oauthToken\<lparr>oauth_CopilotToken := Token fresh,
                                                    CopilotExpiresAt := ExpiresAt fresh\<rparr>
                           in SaverCalled updated #
                              (case save updated of
                                 None \<Rightarrow> []
                               | Some err \<Rightarrow> [Warned err])))))))"

text \<open>\<^verbatim>\<open>func (t *Transport) getValidToken(ctx) (string, error)\<close>.\<close>

definition getValidToken ::
  "transport_env \<Rightarrow> Transport \<Rightarrow> (error + string) \<times> Transport \<times> effect list" where
  "getValidToken env t =
     (if cached_valid (now_fast env) t then (Inr (cached_value t), t, [])
      else refresh_locked env t)"

text \<open>\<^verbatim>\<open>func (t *Transport) ClearCache()\<close>.\<close>

definition ClearCache :: "Transport \<Rightarrow> Transport" where
  "ClearCache t = t\<lparr>copilotToken := None\<rparr>"

text \<open>
  Requests and the store.  A \<^verbatim>\<open>http.Header\<close> is a reference to a map: the store is the
  list of the header maps allocated so far, and a request refers to its map by its index
  (\<open>None\<close> is the nil map; an index outside the store does not occur in a program and
  is treated like the nil map).  \<^verbatim>\<open>req.Clone\<close> allocates a copy of the map of the request;
  \<^verbatim>\<open>Header.Set\<close> writes into the store at the reference it is called on, and panics on
  the nil map.
\<close>

type_synonym store = "header list"

record request =
  req_method :: string
  req_url :: string
  req_header :: "nat option"

definition store_get :: "store \<Rightarrow> nat \<Rightarrow> header option" where
  "store_get st a = (if a < length st then Some (st ! a) else None)"

definition request_Clone :: "store \<Rightarrow> request \<Rightarrow> request \<times> store" where
  "request_Clone st req =
     (case req_header req of
        None \<Rightarrow> (req, st)
      | Some a \<Rightarrow>
          (case store_get st a of
             None \<Rightarrow> (req\<lparr>req_header := None\<rparr>, st)
           | Some h \<Rightarrow> (req\<lparr>req_header := Some (length st)\<rparr>, st @ [h])))"

definition store_Set :: "nat \<Rightarrow> string \<Rightarrow> string \<Rightarrow> store \<Rightarrow> store" where
  "store_Set a k v st = (if a < length st then st[a := header_Set k v (st ! a)] else st)"

fun store_set_headers :: "nat \<Rightarrow> (string \<times> string) list \<Rightarrow> store \<Rightarrow> store" where
  "store_set_headers a [] st = st"
| "store_set_headers a ((k, v) # kvs) st = store_set_headers a kvs (store_Set a k v st)"

text \<open>
  \<^verbatim>\<open>func (t *Transport) RoundTrip(req *http.Request) (*http.Response, error)\<close>.  The
  result is a panic or the returned pair (an error or the response of the base), with the
  transport, the store and the effects afterwards.
\<close>

definition RoundTrip ::
  "transport_env \<Rightarrow> Transport \<Rightarrow> store \<Rightarrow> request \<Rightarrow>
     (panic + (error + http_response)) \<times> Transport \<times> store \<times> effect list" where
  "RoundTrip env t st req =
     (case getValidToken env t of
        (Inl err, t', eff) \<Rightarrow> (Inr (Inl err), t', st, eff)
      | (Inr token, t', eff) \<Rightarrow>
          (case request_Clone st req of
             (reqCopy, st1) \<Rightarrow>
               (case req_header reqCopy of
                  None \<Rightarrow> (Inl NilMapAssignment, t', st1, eff)
                | Some a \<Rightarrow>
                    (let st2 = store_Set a ''Authorization'' (''Bearer '' @ token) st1;
                         st3 = store_set_headers a CopilotHeaders st2;
                         st4 = store_Set a ''Openai-Intent'' ''conversation-edits'' st3;
                         st5 = store_Set a ''X-Initiator'' ''user'' st4;
                         sent = (case store_get st5 a of None \<Rightarrow> [] | Some h \<Rightarrow> h)
                     in (Inr (base t' (req_method reqCopy) (req_url reqCopy) sent), t', st5,
                         eff @ [BaseCalled (req_method reqCopy) (req_url reqCopy) sent])))))"

text \<open>The headers of the outgoing request, from the token and the headers of the original.\<close>

definition outgoing_header :: "string \<Rightarrow> header \<Rightarrow> header" where
  "outgoing_header token h =
     header_Set ''X-Initiator'' ''user''
       (header_Set ''Openai-Intent'' ''conversation-edits''
         (set_headers CopilotHeaders
           (header_Set ''Authorization'' (''Bearer '' @ token) h)))"

text \<open>Transports, an environment and a request for the examples.\<close>

definition example_base :: "string \<Rightarrow> string \<Rightarrow> header \<Rightarrow> error + http_response" where
  "example_base m u h =
     Inr \<lparr>resp_status = 200, resp_body = header_Get ''Authorization'' h\<rparr>"

definition example_saver_fails :: "oauth_Token \<Rightarrow> error option" where
  "example_saver_fails tok = Some (ExternalError ''disk full'')"

definition example_credential :: "string \<Rightarrow> int64 \<Rightarrow> oauth_Token" where
  "example_credential persisted expires =
     \<lparr>AccessToken = [], RefreshToken = ''ghu_github_token'', ExpiresIn = 0,
      oauth_ExpiresAt = 0, oauth_CopilotToken = persisted, CopilotExpiresAt = expires\<rparr>"

definition example_transport ::
  "oauth_Token \<Rightarrow> (oauth_Token \<Rightarrow> error option) option \<Rightarrow> CopilotToken option \<Rightarrow> Transport" where
  "example_transport cred saver cache =
     \<lparr>tokenProvider = (Some cred, None), tokenSaver = saver, base = example_base,
      copilotToken = cache\<rparr>"

definition example_endpoint :: "header \<Rightarrow> http_result" where
  "example_endpoint h =
     (if header_Get ''Authorization'' h = ''Bearer ghu_github_token''
      then Responded 200 ''fresh'' else Responded 401 [])"

definition example_env :: transport_env where
  "example_env =
     \<lparr>now_fast = 1700000000, now_locked = 1700000000, now_persisted = 1700000000,
      token_endpoint = example_endpoint, unmarshal_token = scripted_unmarshal_token\<rparr>"

definition example_request :: request where
  "example_request = \<lparr>req_method = ''GET'', req_url = ''https://api.githubcopilot.com/chat'',
     req_header = Some 0\<rparr>"

section \<open>Arithmetic of 64-bit timestamps\<close>

lemma sint_diff_no_wrap:
  fixes a b :: int64
  assumes "- (2 ^ 63) \<le> sint a - sint b" and "sint a - sint b < 2 ^ 63"
  shows "sint (a - b) = sint a - sint b"
  using assms by (simp add: sint_word_ariths signed_take_bit_int_eq_self)

lemma sint_range64:
  fixes a :: int64
  shows "- (2 ^ 63) \<le> sint a" and "sint a < 2 ^ 63"
  using sint_ge [of a] sint_lt [of a] by simp_all

lemma sint_minus_60:
  fixes e :: int64
  assumes "- (2 ^ 63) + 60 \<le> sint e"
  shows "sint (e - 60) = sint e - 60"
proof -
  have "sint (e - 60) = sint e - sint (60 :: int64)"
    using assms sint_range64 [of e] by (intro sint_diff_no_wrap) simp_all
  then show ?thesis by simp
qed

lemma sint_go_quo_10:
  fixes a :: int64
  shows "sint (go_quo a 10) = sint a sdiv 10"
proof -
  have b: "- (2 ^ 63) \<le> sint a sdiv 10 \<and> sint a sdiv 10 < 2 ^ 63"
    using sint_range64 [of a] by (auto simp: signed_divide_int_def sgn_if)
  have "sint (go_quo a 10) = signed_take_bit 63 (sint a sdiv 10)"
    by (simp add: go_quo_def sint_sbintrunc')
  with b show ?thesis by (simp add: signed_take_bit_int_eq_self)
qed

section \<open>Expiry checks\<close>

lemma CopilotToken_IsExpired_nil: "CopilotToken_IsExpired now None"
  by (simp add: CopilotToken_IsExpired_def)

lemma IsCopilotTokenExpired_nil: "IsCopilotTokenExpired now None"
  by (simp add: IsCopilotTokenExpired_def)

lemma CopilotToken_IsExpired_word:
  "CopilotToken_IsExpired now (Some c) \<longleftrightarrow> Token c = [] \<or> sint (ExpiresAt c - 60) \<le> sint now"
  by (simp add: CopilotToken_IsExpired_def word_sle_eq)

lemma IsCopilotTokenExpired_word:
  "IsCopilotTokenExpired now (Some p) \<longleftrightarrow>
     oauth_CopilotToken p = [] \<or> sint (CopilotExpiresAt p - 60) \<le> sint now"
  by (simp add: IsCopilotTokenExpired_def word_sle_eq)

lemma Token_IsExpired_word:
  "Token_IsExpired now (Some t) =
     Inr (sint (oauth_ExpiresAt t - go_quo (ExpiresIn t) 10) \<le> sint now)"
  by (simp add: Token_IsExpired_def word_sle_eq)

text \<open>
  C1 (amended).  The fixed-buffer expiry check of a short-lived Copilot token, in both its
  copies (\<^verbatim>\<open>CopilotToken.IsExpired\<close> and \<^verbatim>\<open>Token.IsCopilotTokenExpired\<close>): a nil token
  is expired; and for every token whose expiry time is at least \<open>-2^63 + 60\<close>, so that
  the 64-bit subtraction \<^verbatim>\<open>ExpiresAt - 60\<close> does not wrap around, the check returns true
  if and only if the token string is empty or \<open>now \<ge> expiresAt - 60\<close> over the integers.
  At the exact boundary \<open>now = expiresAt - 60\<close> the token is expired.
\<close>

theorem fixed_buffer_expiry:
  assumes "- (2 ^ 63) + 60 \<le> sint (ExpiresAt c)"
    and "- (2 ^ 63) + 60 \<le> sint (CopilotExpiresAt p)"
  shows "CopilotToken_IsExpired now None
       \<and> IsCopilotTokenExpired now None
       \<and> (CopilotToken_IsExpired now (Some c) \<longleftrightarrow>
            Token c = [] \<or> sint (ExpiresAt c) - 60 \<le> sint now)
       \<and> (IsCopilotTokenExpired now (Some p) \<longleftrightarrow>
            oauth_CopilotToken p = [] \<or> sint (CopilotExpiresAt p) - 60 \<le> sint now)
       \<and> (sint now = sint (ExpiresAt c) - 60 \<longrightarrow> CopilotToken_IsExpired now (Some c))
       \<and> (sint now = sint (CopilotExpiresAt p) - 60 \<longrightarrow> IsCopilotTokenExpired now (Some p))"
proof -
  have c: "sint (ExpiresAt c - 60) = sint (ExpiresAt c) - 60"
    using assms(1) by (rule sint_minus_60)
  have p: "sint (CopilotExpiresAt p - 60) = sint (CopilotExpiresAt p) - 60"
    using assms(2) by (rule sint_minus_60)
  show ?thesis
    by (simp add: CopilotToken_IsExpired_nil IsCopilotTokenExpired_nil
        CopilotToken_IsExpired_word IsCopilotTokenExpired_word c p)
qed

text \<open>
  The theorem at a token that expires at 1700000060, read at the boundary second
  1700000000 (expired) and one second earlier (still usable).
\<close>

theorem fixed_buffer_expiry_witness:
  "- (2 ^ 63) + 60 \<le> sint (ExpiresAt \<lparr>Token = ''tid=abc123'', ExpiresAt = 1700000060\<rparr>)
   \<and> CopilotToken_IsExpired 1700000000
        (Some \<lparr>Token = ''tid=abc123'', ExpiresAt = 1700000060\<rparr>)
   \<and> \<not> CopilotToken_IsExpired 1699999999
        (Some \<lparr>Token = ''tid=abc123'', ExpiresAt = 1700000060\<rparr>)"
proof -
  let ?c = "\<lparr>Token = ''tid=abc123'', ExpiresAt = 1700000060\<rparr>"
  let ?p = "\<lparr>AccessToken = [], RefreshToken = ''gho_x'', ExpiresIn = 0, oauth_ExpiresAt = 0,
             oauth_CopilotToken = ''tid=abc123'', CopilotExpiresAt = 1700000060\<rparr>"
  have h1: "- (2 ^ 63) + 60 \<le> sint (ExpiresAt ?c)" by simp
  have h2: "- (2 ^ 63) + 60 \<le> sint (CopilotExpiresAt ?p)" by simp
  show ?thesis
    using h1 fixed_buffer_expiry [OF h1 h2, of 1700000000]
      fixed_buffer_expiry [OF h1 h2, of 1699999999]
    by simp
qed

text \<open>
  C1 as stated fails where \<^verbatim>\<open>ExpiresAt - 60\<close> wraps around: a non-empty token whose expiry
  time is the least \<^verbatim>\<open>int64\<close> has \<open>now \<ge> expiresAt - 60\<close> at every second, and the
  check answers that it is not expired.
\<close>

theorem fixed_buffer_expiry_counterexample:
  "\<not> CopilotToken_IsExpired 1700000000
        (Some \<lparr>Token = ''tid=abc123'', ExpiresAt = - (2 ^ 63)\<rparr>)
   \<and> sint (ExpiresAt \<lparr>Token = ''tid=abc123'', ExpiresAt = - (2 ^ 63)\<rparr>) - 60
        \<le> sint (1700000000 :: int64)
   \<and> \<not> IsCopilotTokenExpired 1700000000
        (Some \<lparr>AccessToken = [], RefreshToken = ''gho_x'', ExpiresIn = 0, oauth_ExpiresAt = 0,
               oauth_CopilotToken = ''tid=abc123'', CopilotExpiresAt = - (2 ^ 63)\<rparr>)"
  by (simp add: CopilotToken_IsExpired_def IsCopilotTokenExpired_def word_sle_eq)

text \<open>
  C8 (amended).  The proportional-buffer check \<^verbatim>\<open>Token.IsExpired\<close> of the long-lived
  token: for every non-nil token for which \<^verbatim>\<open>ExpiresAt - ExpiresIn/10\<close> does not leave
  the 64-bit range, it returns true if and only if
  \<open>now \<ge> expiresAt - lifetimeSeconds / 10\<close>, the quotient truncated towards zero.
  The answer does not depend on the token's value (the access token string), and a nil
  token is not treated as expired: the call panics.
\<close>

theorem proportional_buffer_expiry:
  assumes "- (2 ^ 63) \<le> sint (oauth_ExpiresAt t) - sint (ExpiresIn t) sdiv 10"
    and "sint (oauth_ExpiresAt t) - sint (ExpiresIn t) sdiv 10 < 2 ^ 63"
  shows "Token_IsExpired now (Some t) =
           Inr (sint (oauth_ExpiresAt t) - sint (ExpiresIn t) sdiv 10 \<le> sint now)
       \<and> Token_IsExpired now (Some (t\<lparr>AccessToken := a\<rparr>)) = Token_IsExpired now (Some t)
       \<and> Token_IsExpired now None = Inl NilPointerDereference"
proof -
  have "sint (oauth_ExpiresAt t - go_quo (ExpiresIn t) 10) =
        sint (oauth_ExpiresAt t) - sint (go_quo (ExpiresIn t) 10)"
    using assms by (intro sint_diff_no_wrap) (simp_all add: sint_go_quo_10)
  then have "sint (oauth_ExpiresAt t - go_quo (ExpiresIn t) 10) =
        sint (oauth_ExpiresAt t) - sint (ExpiresIn t) sdiv 10"
    by (simp add: sint_go_quo_10)
  then show ?thesis
    by (simp add: Token_IsExpired_word) (simp add: Token_IsExpired_def)
qed

text \<open>
  The theorem at a one-hour token with five minutes left (within the 360-second buffer)
  and with an hour left.
\<close>

theorem proportional_buffer_expiry_witness:
  "- (2 ^ 63) \<le> (1700000300 :: int) - 3600 sdiv 10
   \<and> Token_IsExpired 1700000000
        (Some \<lparr>AccessToken = ''sk-1'', RefreshToken = ''r'', ExpiresIn = 3600,
               oauth_ExpiresAt = 1700000300, oauth_CopilotToken = [],
               CopilotExpiresAt = 0\<rparr>) = Inr True
   \<and> Token_IsExpired 1699996700
        (Some \<lparr>AccessToken = ''sk-1'', RefreshToken = ''r'', ExpiresIn = 3600,
               oauth_ExpiresAt = 1700000300, oauth_CopilotToken = [],
               CopilotExpiresAt = 0\<rparr>) = Inr False"
proof -
  let ?t = "\<lparr>AccessToken = ''sk-1'', RefreshToken = ''r'', ExpiresIn = 3600,
             oauth_ExpiresAt = 1700000300, oauth_CopilotToken = [], CopilotExpiresAt = 0\<rparr>"
  have q: "(3600 :: int) sdiv 10 = 360"
    by (simp add: signed_divide_int_def)
  have h1: "- (2 ^ 63) \<le> sint (oauth_ExpiresAt ?t) - sint (ExpiresIn ?t) sdiv 10"
    by (simp add: q)
  have h2: "sint (oauth_ExpiresAt ?t) - sint (ExpiresIn ?t) sdiv 10 < 2 ^ 63"
    by (simp add: q)
  show ?thesis
    using proportional_buffer_expiry [OF h1 h2, of 1700000000]
      proportional_buffer_expiry [OF h1 h2, of 1699996700]
    by (simp add: q)
qed

text \<open>
  C8 as stated fails on a valueless token: with an empty access token and an hour of a
  one-hour lifetime left, \<^verbatim>\<open>Token.IsExpired\<close> answers false.  On a nil token the call
  panics.  And where \<^verbatim>\<open>ExpiresAt - ExpiresIn/10\<close> wraps around (the expiry time is the
  least \<^verbatim>\<open>int64\<close>) the answer is false although \<open>now \<ge> expiresAt - lifetimeSeconds/10\<close>.
\<close>

theorem proportional_buffer_expiry_counterexample:
  "AccessToken \<lparr>AccessToken = [], RefreshToken = [], ExpiresIn = 3600,
                oauth_ExpiresAt = 1700003600, oauth_CopilotToken = [],
                CopilotExpiresAt = 0\<rparr> = []
   \<and> Token_IsExpired 1700000000
        (Some \<lparr>AccessToken = [], RefreshToken = [], ExpiresIn = 3600,
               oauth_ExpiresAt = 1700003600, oauth_CopilotToken = [],
               CopilotExpiresAt = 0\<rparr>) = Inr False
   \<and> Token_IsExpired 1700000000 None = Inl NilPointerDereference
   \<and> Token_IsExpired 1700000000
        (Some \<lparr>AccessToken = ''sk-1'', RefreshToken = ''r'', ExpiresIn = 3600,
               oauth_ExpiresAt = - (2 ^ 63), oauth_CopilotToken = [],
               CopilotExpiresAt = 0\<rparr>) = Inr False
   \<and> sint (- (2 ^ 63) :: int64) - sint (3600 :: go_int) sdiv 10 \<le> sint (1700000000 :: int64)"
  by (simp add: Token_IsExpired_def word_sle_eq go_quo_def signed_divide_int_def)

section \<open>Polling engine: interval, cancellation, result\<close>



text \<open>
  Up to 9223372036 seconds the timer of a wait is the interval in nanoseconds; from
  9223372037 seconds on the multiplication overflows the \<^verbatim>\<open>int64\<close> of a
  \<^verbatim>\<open>time.Duration\<close>.
\<close>

lemma wait_duration_no_wrap:
  assumes "0 \<le> sint interval" and "sint interval \<le> 9223372036"
  shows "sint (wait_duration interval) = sint interval * 1000000000"
proof -
  have "sint (wait_duration interval) = signed_take_bit 63 (sint interval * 1000000000)"
    by (simp add: wait_duration_def sint_word_ariths)
  moreover have "- (2 ^ 63) \<le> sint interval * 1000000000"
    and "sint interval * 1000000000 < 2 ^ 63"
    using assms by simp_all
  ultimately show ?thesis by (simp add: signed_take_bit_int_eq_self)
qed

lemma wait_duration_wraps: "sint (wait_duration 9223372037) < 0"
  by (simp add: wait_duration_def)

lemma clamp_ge_5: "5 \<le> sint (if interval <s 5 then 5 else interval :: go_int)"
  by (simp add: word_sless_alt)







lemma poll_loop_cancel:
  assumes "0 <s (of_nat k :: go_int)" and "select_outcome env k = CtxDone e"
  shows "poll_loop env (Suc n) k interval = ([WaitCancelled interval e], Some ([], Some e))"
  using assms by simp

lemma poll_loop_cancelled_last:
  assumes "WaitCancelled d e \<in> set (fst (poll_loop env n k interval))"
  shows "(\<exists>pre. fst (poll_loop env n k interval) = pre @ [WaitCancelled d e])
       \<and> snd (poll_loop env n k interval) = Some ([], Some e)"
  using assms
proof (induction n arbitrary: k interval)
  case 0
  then show ?case by simp
next
  case (Suc n)
  let ?w = "0 <s (of_nat k :: go_int)"
  show ?case
  proof (cases "if ?w then select_outcome env k else TimerFired")
    case (CtxDone e')
    then show ?thesis using Suc.prems by (simp add: Let_def)
  next
    case TimerFired
    show ?thesis
    proof (cases "poll_attempt (unmarshal_poll env) (http_outcome env k) interval")
      case (Inr ret)
      then show ?thesis using TimerFired Suc.prems by (simp add: Let_def split: if_splits)
    next
      case (Inl interval')
      obtain tr res where r: "poll_loop env n (Suc k) interval' = (tr, res)"
        by (cases "poll_loop env n (Suc k) interval'")
      have m: "WaitCancelled d e \<in> set (fst (poll_loop env n (Suc k) interval'))"
        using TimerFired Inl r Suc.prems by (simp add: Let_def split: if_splits)
      from Suc.IH [OF m] obtain pre where
        "tr = pre @ [WaitCancelled d e]" and "res = Some ([], Some e)"
        using r by auto
      then show ?thesis using TimerFired Inl r by (simp add: Let_def)
    qed
  qed
qed

lemma poll_loop_result:
  assumes "snd (poll_loop env n k interval) = Some (tok, err)"
  shows "(tok \<noteq> [] \<and> err = None) \<or> (tok = [] \<and> err \<noteq> None)"
  using assms
proof (induction n arbitrary: k interval)
  case 0
  then show ?case by simp
next
  case (Suc n)
  show ?case
  proof (cases "if 0 <s (of_nat k :: go_int) then select_outcome env k else TimerFired")
    case (CtxDone e')
    then show ?thesis using Suc.prems by (auto simp: Let_def)
  next
    case TimerFired
    show ?thesis
    proof (cases "poll_attempt (unmarshal_poll env) (http_outcome env k) interval")
      case (Inr ret)
      then have "ret = (tok, err)" using TimerFired Suc.prems by (simp add: Let_def)
      with Inr show ?thesis
        by (auto simp: poll_attempt_def split: prod.splits option.splits error.splits if_splits)
    next
      case (Inl interval')
      then have "snd (poll_loop env n (Suc k) interval') = Some (tok, err)"
        using TimerFired Suc.prems by (simp add: Let_def split: prod.splits)
      then show ?thesis by (rule Suc.IH)
    qed
  qed
qed


lemma poll_attempt_empty:
  assumes "u body = Inr resp" and "resp_Error resp = []" and "resp_AccessToken resp = []"
  shows "poll_attempt u (Responded status body) interval = Inl interval"
  using assms by (simp add: poll_attempt_def pollOnce_def)

lemma poll_attempt_pending:
  assumes "u body = Inr resp" and "resp_Error resp = ''authorization_pending''"
  shows "poll_attempt u (Responded status body) interval = Inl interval"
  using assms by (simp add: poll_attempt_def pollOnce_def)

lemma poll_loop_continue:
  assumes "poll_attempt (unmarshal_poll env) (http_outcome env k) interval = Inl interval'"
    and "0 <s (of_nat k :: go_int) \<longrightarrow> select_outcome env k = TimerFired"
    and "select_outcome env (Suc k) = TimerFired"
  shows "PollAttempt (Suc k) \<in> set (fst (poll_loop env (Suc (Suc n)) k interval))"
proof -
  have "PollAttempt (Suc k) \<in> set (fst (poll_loop env (Suc n) (Suc k) interval'))"
    using assms(3) by (auto simp: Let_def split: sum.splits prod.splits)
  moreover have "fst (poll_loop env (Suc (Suc n)) k interval) =
      (if 0 <s (of_nat k :: go_int) then [WaitElapsed interval] else []) @ [PollAttempt k]
        @ fst (poll_loop env (Suc n) (Suc k) interval')"
    using assms(1,2) poll_loop.simps(2) [of env "Suc n" k interval]
    by (simp add: Let_def split: prod.splits del: poll_loop.simps)
  ultimately show ?thesis by simp
qed

text \<open>
  C10.  \<^verbatim>\<open>PollForToken\<close> never returns an empty token together with a nil error: whenever
  it returns, the result is a non-empty token with no error, or the empty token with an
  error.  A poll response that decodes to neither an error field nor an access token makes
  \<^verbatim>\<open>pollOnce\<close> return the empty token without error; the loop treats it as it treats
  \<^verbatim>\<open>authorization_pending\<close> (it continues with the interval unchanged) and, when the
  waits are not cancelled, issues the next attempt.
\<close>

theorem poll_result_token_or_error:
  "(snd (PollForToken env fuel deviceCode interval) = Some (tok, err) \<longrightarrow>
      (tok \<noteq> [] \<and> err = None) \<or> (tok = [] \<and> err \<noteq> None))
   \<and> (unmarshal_poll env body = Inr resp \<and> resp_Error resp = [] \<and> resp_AccessToken resp = []
        \<and> http_outcome env k = Responded status body
        \<and> (0 <s (of_nat k :: go_int) \<longrightarrow> select_outcome env k = TimerFired)
        \<and> select_outcome env (Suc k) = TimerFired \<longrightarrow>
      pollOnce (unmarshal_poll env) (http_outcome env k) = ([], 0, None)
      \<and> poll_attempt (unmarshal_poll env) (http_outcome env k) cur = Inl cur
      \<and> PollAttempt (Suc k) \<in> set (fst (poll_loop env (Suc (Suc n)) k cur)))
   \<and> (unmarshal_poll env body' = Inr resp' \<and> resp_Error resp' = ''authorization_pending'' \<longrightarrow>
        poll_attempt (unmarshal_poll env) (Responded status' body') cur = Inl cur)"
proof -
  have a: "snd (PollForToken env fuel deviceCode interval) = Some (tok, err) \<longrightarrow>
      (tok \<noteq> [] \<and> err = None) \<or> (tok = [] \<and> err \<noteq> None)"
    unfolding PollForToken_def by (blast dest: poll_loop_result)
  have b: "pollOnce (unmarshal_poll env) (http_outcome env k) = ([], 0, None)
      \<and> poll_attempt (unmarshal_poll env) (http_outcome env k) cur = Inl cur
      \<and> PollAttempt (Suc k) \<in> set (fst (poll_loop env (Suc (Suc n)) k cur))"
    if h: "unmarshal_poll env body = Inr resp" "resp_Error resp = []" "resp_AccessToken resp = []"
      "http_outcome env k = Responded status body"
      "0 <s (of_nat k :: go_int) \<longrightarrow> select_outcome env k = TimerFired"
      "select_outcome env (Suc k) = TimerFired"
  proof -
    have p: "poll_attempt (unmarshal_poll env) (http_outcome env k) cur = Inl cur"
      using h(1-4) by (simp add: poll_attempt_empty)
    have q: "pollOnce (unmarshal_poll env) (http_outcome env k) = ([], 0, None)"
      using h(1-4) by (simp add: pollOnce_def)
    show ?thesis using p q poll_loop_continue [OF p h(5,6)] by simp
  qed
  have c: "unmarshal_poll env body' = Inr resp' \<and> resp_Error resp' = ''authorization_pending'' \<longrightarrow>
        poll_attempt (unmarshal_poll env) (Responded status' body') cur = Inl cur"
    by (simp add: poll_attempt_pending)
  show ?thesis using a b c by blast
qed


lemma poll_loop_attempt_not_cancelled:
  assumes "PollAttempt k \<in> set (fst (poll_loop env n k0 cur))"
  shows "k0 \<le> k \<and> (\<forall>j. k0 \<le> j \<and> j \<le> k \<and> 0 <s (of_nat j :: go_int) \<longrightarrow>
           select_outcome env j = TimerFired)"
  using assms
proof (induction n arbitrary: k0 cur)
  case 0
  then show ?case by simp
next
  case (Suc n)
  show ?case
  proof (cases "if 0 <s (of_nat k0 :: go_int) then select_outcome env k0 else TimerFired")
    case (CtxDone e')
    then show ?thesis using Suc.prems by (simp add: Let_def)
  next
    case TimerFired
    then have here: "0 <s (of_nat k0 :: go_int) \<longrightarrow> select_outcome env k0 = TimerFired"
      by (simp split: if_splits)
    show ?thesis
    proof (cases "poll_attempt (unmarshal_poll env) (http_outcome env k0) cur")
      case (Inr ret)
      then have "k = k0" using TimerFired Suc.prems by (simp add: Let_def split: if_splits)
      then show ?thesis using here by (auto simp: le_antisym)
    next
      case (Inl cur')
      have "k = k0 \<or> PollAttempt k \<in> set (fst (poll_loop env n (Suc k0) cur'))"
        using TimerFired Inl Suc.prems by (auto simp: Let_def split: if_splits prod.splits)
      then show ?thesis
      proof
        assume "k = k0"
        then show ?thesis using here by (auto simp: le_antisym)
      next
        assume "PollAttempt k \<in> set (fst (poll_loop env n (Suc k0) cur'))"
        from Suc.IH [OF this] have ih: "Suc k0 \<le> k"
          "\<forall>j. Suc k0 \<le> j \<and> j \<le> k \<and> 0 <s (of_nat j :: go_int) \<longrightarrow>
             select_outcome env j = TimerFired" by simp_all
        show ?thesis
        proof (intro conjI allI impI)
          show "k0 \<le> k" using ih(1) by simp
        next
          fix j assume j: "k0 \<le> j \<and> j \<le> k \<and> 0 <s (of_nat j :: go_int)"
          show "select_outcome env j = TimerFired"
          proof (cases "j = k0")
            case True
            then show ?thesis using here j by simp
          next
            case False
            then have "Suc k0 \<le> j" using j by simp
            then show ?thesis using ih(2) j by blast
          qed
        qed
      qed
    qed
  qed
qed





text \<open>
  C6.  Cancellation during the inter-attempt wait of \<^verbatim>\<open>PollForToken\<close>.  At the head of an
  iteration that waits, when the \<^verbatim>\<open>select\<close> receives from \<^verbatim>\<open>ctx.Done()\<close>, the function
  returns the empty token with the context's error at once, whatever fuel is left, and the
  iteration issues no network call.  In every run, a cancelled wait is the last thing the
  run does and its error is the result; and every poll attempt the run issues comes after
  waits that all ran to their end: no attempt follows a cancelled wait.
\<close>

theorem no_poll_after_cancel:
  "(0 <s (of_nat k :: go_int) \<and> select_outcome env k = CtxDone e \<longrightarrow>
       poll_loop env (Suc n) k cur = ([WaitCancelled cur e], Some ([], Some e)))
   \<and> (WaitCancelled d e' \<in> set (fst (PollForToken env fuel deviceCode interval)) \<longrightarrow>
       (\<exists>pre. fst (PollForToken env fuel deviceCode interval) = pre @ [WaitCancelled d e'])
       \<and> snd (PollForToken env fuel deviceCode interval) = Some ([], Some e'))
   \<and> (PollAttempt a \<in> set (fst (PollForToken env fuel deviceCode interval))
        \<and> j \<le> a \<and> 0 <s (of_nat j :: go_int) \<longrightarrow> select_outcome env j = TimerFired)"
proof -
  have 1: "0 <s (of_nat k :: go_int) \<and> select_outcome env k = CtxDone e \<longrightarrow>
       poll_loop env (Suc n) k cur = ([WaitCancelled cur e], Some ([], Some e))"
    by (simp add: poll_loop_cancel)
  have 2: "WaitCancelled d e' \<in> set (fst (PollForToken env fuel deviceCode interval)) \<longrightarrow>
       (\<exists>pre. fst (PollForToken env fuel deviceCode interval) = pre @ [WaitCancelled d e'])
       \<and> snd (PollForToken env fuel deviceCode interval) = Some ([], Some e')"
    unfolding PollForToken_def by (blast dest: poll_loop_cancelled_last)
  have 3: "PollAttempt a \<in> set (fst (PollForToken env fuel deviceCode interval))
        \<and> j \<le> a \<and> 0 <s (of_nat j :: go_int) \<longrightarrow> select_outcome env j = TimerFired"
    unfolding PollForToken_def using poll_loop_attempt_not_cancelled [of a env fuel 0] by blast
  show ?thesis using 1 2 3 by blast
qed

text \<open>
  The theorem on a run cancelled during the wait before its third attempt: two attempts
  are issued, none after the cancellation.
\<close>

theorem no_poll_after_cancel_witness:
  "fst (PollForToken (scripted_env [''authorization_pending'', ''{}'', ''token''] (Some 2))
          10 ''dc'' 0)
     = [PollAttempt 0, WaitElapsed 5, PollAttempt 1,
        WaitCancelled 5 (ExternalError ''context canceled'')]
   \<and> snd (PollForToken (scripted_env [''authorization_pending'', ''{}'', ''token''] (Some 2))
          10 ''dc'' 0)
     = Some ([], Some (ExternalError ''context canceled''))
   \<and> poll_loop (scripted_env [''authorization_pending'', ''{}'', ''token''] (Some 2)) 8 2 5
     = ([WaitCancelled 5 (ExternalError ''context canceled'')],
        Some ([], Some (ExternalError ''context canceled'')))
   \<and> select_outcome (scripted_env [''authorization_pending'', ''{}'', ''token''] (Some 2)) 1
     = TimerFired"
proof -
  let ?env = "scripted_env [''authorization_pending'', ''{}'', ''token''] (Some 2)"
  let ?e = "ExternalError ''context canceled''"
  have t: "fst (PollForToken ?env 10 ''dc'' 0)
     = [PollAttempt 0, WaitElapsed 5, PollAttempt 1, WaitCancelled 5 ?e]"
    by code_simp
  have c: "0 <s (of_nat 2 :: go_int) \<and> select_outcome ?env 2 = CtxDone ?e"
    by (simp add: scripted_env_def word_sless_alt)
  have m: "WaitCancelled 5 ?e \<in> set (fst (PollForToken ?env 10 ''dc'' 0))"
    by (simp add: t)
  have a: "PollAttempt 1 \<in> set (fst (PollForToken ?env 10 ''dc'' 0))
        \<and> (1 :: nat) \<le> 1 \<and> 0 <s (of_nat 1 :: go_int)"
    by (simp add: t word_sless_alt)
  show ?thesis
    using no_poll_after_cancel [of 2 ?env ?e 7 5 5 ?e 10 "''dc''" 0 1 1] t c m a
    by (simp add: eval_nat_numeral)
qed

text \<open>
  The theorem on a run whose second response is the empty JSON object: the third attempt
  is issued and brings the token.
\<close>

theorem poll_result_token_or_error_witness:
  "snd (PollForToken (scripted_env [''authorization_pending'', ''{}'', ''token''] None)
          10 ''dc'' 0) = Some (''gho_token'', None)
   \<and> ''gho_token'' \<noteq> []
   \<and> poll_attempt scripted_unmarshal (Responded 200 ''{}'') 5 = Inl 5
   \<and> poll_attempt scripted_unmarshal (Responded 200 ''authorization_pending'') 5 = Inl 5
   \<and> PollAttempt 2 \<in> set (fst (poll_loop
        (scripted_env [''authorization_pending'', ''{}'', ''token''] None) 2 1 5))"
proof -
  let ?env = "scripted_env [''authorization_pending'', ''{}'', ''token''] None"
  have r: "snd (PollForToken ?env 10 ''dc'' 0) = Some (''gho_token'', None)"
    by code_simp
  have h: "unmarshal_poll ?env ''{}'' = Inr (scripted_response [] [] 0)
      \<and> resp_Error (scripted_response [] [] 0) = []
      \<and> resp_AccessToken (scripted_response [] [] 0) = []
      \<and> http_outcome ?env 1 = Responded 200 ''{}''
      \<and> (0 <s (of_nat 1 :: go_int) \<longrightarrow> select_outcome ?env 1 = TimerFired)
      \<and> select_outcome ?env (Suc 1) = TimerFired"
    by (simp add: scripted_env_def scripted_unmarshal_def scripted_response_def)
  have u: "unmarshal_poll ?env = scripted_unmarshal" "http_outcome ?env 1 = Responded 200 ''{}''"
    by (simp_all add: scripted_env_def)
  have p: "unmarshal_poll ?env ''authorization_pending'' =
        Inr (scripted_response [] ''authorization_pending'' 0)
      \<and> resp_Error (scripted_response [] ''authorization_pending'' 0) = ''authorization_pending''"
    by (simp add: scripted_env_def scripted_unmarshal_def scripted_response_def)
  show ?thesis
    using poll_result_token_or_error
      [where env = ?env and fuel = 10 and deviceCode = "''dc''" and interval = 0
         and tok = "''gho_token''" and err = None and body = "''{}''"
         and resp = "scripted_response [] [] 0" and k = 1 and status = 200 and cur = 5
         and n = 0 and body' = "''authorization_pending''"
         and resp' = "scripted_response [] ''authorization_pending'' 0" and status' = 200]
      r h u p
    by (simp add: eval_nat_numeral)
qed

section \<open>Token exchanger: status mapping\<close>

text \<open>
  C5 (amended).  \<^verbatim>\<open>ExchangeForCopilotToken\<close> returns an error when its request fails before
  a body has been read (the request cannot be built or sent, or the body cannot be read,
  whatever the status), each with its own wrapping.  Once a status and a body have arrived,
  it returns an error if and only if the status is not 200 or the body of the 200 fails to
  parse: 401 gives the invalid-or-expired-credential error, 403 the
  missing-Copilot-subscription error, 429 the rate-limit error, any other status than 200
  the unexpected-status error carrying the status and the body, and a 200 whose body parses
  gives the parsed token.
\<close>

theorem exchange_status_mapping:
  "ExchangeForCopilotToken u (NewRequestFailed e) =
     Inl (Errorf_wrap ''failed to exchange for copilot token'' e)
   \<and> ExchangeForCopilotToken u (DoFailed e) =
     Inl (Errorf_wrap ''failed to exchange for copilot token'' e)
   \<and> ExchangeForCopilotToken u (ReadFailed status e) =
     Inl (Errorf_wrap ''failed to read copilot token response'' e)
   \<and> ExchangeForCopilotToken u (Responded 401 body) =
     Inl (Errorf_msg ''github authentication failed: invalid or expired token'')
   \<and> ExchangeForCopilotToken u (Responded 403 body) =
     Inl (Errorf_msg
       ''no copilot access: your GitHub account doesn't have an active Copilot subscription'')
   \<and> ExchangeForCopilotToken u (Responded 429 body) =
     Inl (Errorf_msg ''rate limited: please wait and try again'')
   \<and> (status \<noteq> 200 \<and> status \<noteq> 401 \<and> status \<noteq> 403 \<and> status \<noteq> 429 \<longrightarrow>
        ExchangeForCopilotToken u (Responded status body) =
          Inl (Errorf_status ''copilot token exchange failed with status'' status body))
   \<and> ExchangeForCopilotToken u (Responded 200 body) =
       (case u body of
          Inl e' \<Rightarrow> Inl (Errorf_wrap ''failed to parse copilot token response'' e')
        | Inr tok \<Rightarrow> Inr tok)
   \<and> ((\<exists>err. ExchangeForCopilotToken u (Responded status body) = Inl err) \<longleftrightarrow>
        status \<noteq> 200 \<or> (\<exists>e'. u body = Inl e'))"
  by (auto simp: ExchangeForCopilotToken_def split: sum.splits)

text \<open>The theorem at a status 500 and at a 200 with a body that parses.\<close>

theorem exchange_status_mapping_witness:
  "ExchangeForCopilotToken scripted_unmarshal_token (Responded 500 ''oops'') =
     Inl (Errorf_status ''copilot token exchange failed with status'' 500 ''oops'')
   \<and> ExchangeForCopilotToken scripted_unmarshal_token (Responded 200 ''fresh'') =
     Inr \<lparr>Token = ''tid=fresh'', ExpiresAt = 1700003600\<rparr>"
proof -
  have h: "(500 :: int) \<noteq> 200 \<and> (500 :: int) \<noteq> 401 \<and> (500 :: int) \<noteq> 403 \<and> (500 :: int) \<noteq> 429"
    by simp
  have u: "scripted_unmarshal_token ''fresh'' = Inr \<lparr>Token = ''tid=fresh'', ExpiresAt = 1700003600\<rparr>"
    by (simp add: scripted_unmarshal_token_def)
  show ?thesis
    using exchange_status_mapping [where u = scripted_unmarshal_token and status = 500 and body = "''oops''"]
      exchange_status_mapping [where u = scripted_unmarshal_token and status = 500 and body = "''fresh''"] h u
    by simp
qed

text \<open>
  C5 as stated fails on a response whose body cannot be read: with the status 401 the error
  is the read error, not the invalid-credential error; with the status 200 an error is
  returned although the status is 200 and nothing failed to parse; and a request that gets
  no response at all has no status and is an error too.
\<close>

theorem exchange_status_mapping_counterexample:
  "ExchangeForCopilotToken scripted_unmarshal_token (ReadFailed 401 (ExternalError ''unexpected EOF''))
     = Inl (Errorf_wrap ''failed to read copilot token response'' (ExternalError ''unexpected EOF''))
   \<and> ExchangeForCopilotToken scripted_unmarshal_token (ReadFailed 200 (ExternalError ''unexpected EOF''))
     = Inl (Errorf_wrap ''failed to read copilot token response'' (ExternalError ''unexpected EOF''))
   \<and> ExchangeForCopilotToken scripted_unmarshal_token (DoFailed (ExternalError ''connection refused''))
     = Inl (Errorf_wrap ''failed to exchange for copilot token'' (ExternalError ''connection refused''))"
  by (simp add: ExchangeForCopilotToken_def)

section \<open>Headers and the store\<close>

lemma map_of_header_Set: "map_of (header_Set k v h) = (map_of h)(k \<mapsto> [v])"
  by (induction h rule: header_Set.induct) auto

lemma header_Get_Set: "header_Get k (header_Set k' v h) = (if k = k' then v else header_Get k h)"
  by (simp add: header_Get_def map_of_header_Set)

lemma header_Get_set_headers:
  "k \<notin> fst ` set kvs \<Longrightarrow> header_Get k (set_headers kvs h) = header_Get k h"
  by (induction kvs h rule: set_headers.induct) (auto simp: header_Get_Set)

lemma outgoing_Authorization:
  "header_Get ''Authorization'' (outgoing_header token h) = ''Bearer '' @ token"
  by (simp add: outgoing_header_def header_Get_Set header_Get_set_headers CopilotHeaders_def)

lemma store_Set_fresh: "store_Set (length st) k v (st @ [h]) = st @ [header_Set k v h]"
  by (simp add: store_Set_def)

lemma store_set_headers_fresh:
  "store_set_headers (length st) kvs (st @ [h]) = st @ [set_headers kvs h]"
  by (induction kvs arbitrary: h) (auto simp: store_Set_fresh)

lemma store_get_fresh: "store_get (st @ [h]) (length st) = Some h"
  by (simp add: store_get_def)

lemma RoundTrip_error:
  assumes "getValidToken env t = (Inl err, t', eff)"
  shows "RoundTrip env t st req = (Inr (Inl err), t', st, eff)"
  using assms by (simp add: RoundTrip_def)

lemma RoundTrip_nil_header:
  assumes "getValidToken env t = (Inr token, t', eff)"
    and "req_header req = None \<or> (\<exists>a. req_header req = Some a \<and> length st \<le> a)"
  shows "RoundTrip env t st req = (Inl NilMapAssignment, t', st, eff)"
  using assms by (auto simp: RoundTrip_def request_Clone_def store_get_def)

lemma RoundTrip_sent:
  assumes "getValidToken env t = (Inr token, t', eff)"
    and "req_header req = Some a" and "a < length st"
  shows "RoundTrip env t st req =
     (Inr (base t' (req_method req) (req_url req) (outgoing_header token (st ! a))), t',
      st @ [outgoing_header token (st ! a)],
      eff @ [BaseCalled (req_method req) (req_url req) (outgoing_header token (st ! a))])"
  using assms
  by (simp add: RoundTrip_def request_Clone_def store_get_def [of st] Let_def
      store_Set_fresh store_set_headers_fresh store_get_fresh outgoing_header_def)

lemma RoundTrip_store_prefix:
  "take (length st) (fst (snd (snd (RoundTrip env t st req)))) = st"
proof (cases "getValidToken env t")
  case (fields r t' eff)
  show ?thesis
  proof (cases r)
    case (Inl err)
    then show ?thesis using fields by (simp add: RoundTrip_error)
  next
    case (Inr token)
    show ?thesis
    proof (cases "\<exists>a. req_header req = Some a \<and> a < length st")
      case True
      then obtain a where "req_header req = Some a" "a < length st" by blast
      then show ?thesis using fields Inr by (simp add: RoundTrip_sent)
    next
      case False
      then have "req_header req = None \<or> (\<exists>a. req_header req = Some a \<and> length st \<le> a)"
        by (cases "req_header req") (auto simp: not_less)
      then show ?thesis using fields Inr by (simp add: RoundTrip_nil_header)
    qed
  qed
qed


section \<open>Caching transport\<close>

lemma ClearCache_not_valid: "\<not> cached_valid now (ClearCache t)"
  by (simp add: cached_valid_def ClearCache_def)

lemma getValidToken_adopts:
  assumes "\<not> cached_valid (now_fast env) t" and "\<not> cached_valid (now_locked env) t"
    and "tokenProvider t = (Some cred, None)" and "RefreshToken cred \<noteq> []"
    and "\<not> IsCopilotTokenExpired (now_persisted env) (Some cred)"
  shows "getValidToken env t =
     (Inr (oauth_CopilotToken cred),
      t\<lparr>copilotToken :=
          Some \<lparr>Token = oauth_CopilotToken cred, ExpiresAt = CopilotExpiresAt cred\<rparr>\<rparr>,
      [ProviderCalled])"
  using assms by (simp add: getValidToken_def refresh_locked_def)

lemma getValidToken_refreshes:
  assumes "\<not> cached_valid (now_fast env) t" and "\<not> cached_valid (now_locked env) t"
    and "tokenProvider t = (Some cred, None)" and "RefreshToken cred \<noteq> []"
    and "IsCopilotTokenExpired (now_persisted env) (Some cred)"
    and "ExchangeForCopilotToken (unmarshal_token env)
           (token_endpoint env (exchange_request (RefreshToken cred))) = Inr fresh"
  shows "fst (getValidToken env (t\<lparr>tokenSaver := sv\<rparr>)) = Inr (Token fresh)"
    and "fst (snd (getValidToken env (t\<lparr>tokenSaver := sv\<rparr>))) =
           t\<lparr>tokenSaver := sv, copilotToken := Some fresh\<rparr>"
  using assms by (simp_all add: getValidToken_def refresh_locked_def cached_valid_def)

text \<open>
  C2.  A send with no valid cached token (because the cache has just been cleared, or
  because neither check of the cache finds a valid token), when the provider returns a
  credential (a token with a non-empty long-lived secret, and no error) whose persisted
  Copilot token is not expired under the 60-second buffer: \<^verbatim>\<open>getValidToken\<close> returns the
  persisted token and stores it with its expiry in the cache after calling the provider
  only; \<^verbatim>\<open>RoundTrip\<close> then calls the base with \<^verbatim>\<open>Authorization: Bearer\<close> and that token;
  and the token exchanger is not invoked.
\<close>

theorem persisted_token_adopted:
  assumes "tokenProvider t = (Some cred, None)" and "RefreshToken cred \<noteq> []"
    and "\<not> IsCopilotTokenExpired (now_persisted env) (Some cred)"
    and "t = ClearCache t0
         \<or> (\<not> cached_valid (now_fast env) t \<and> \<not> cached_valid (now_locked env) t)"
    and "req_header req = Some a" and "a < length st"
  shows "getValidToken env t =
           (Inr (oauth_CopilotToken cred),
            t\<lparr>copilotToken :=
                Some \<lparr>Token = oauth_CopilotToken cred, ExpiresAt = CopilotExpiresAt cred\<rparr>\<rparr>,
            [ProviderCalled])
       \<and> (\<exists>res t' st' sent.
            RoundTrip env t st req =
              (res, t', st', [ProviderCalled, BaseCalled (req_method req) (req_url req) sent])
            \<and> copilotToken t' =
                Some \<lparr>Token = oauth_CopilotToken cred, ExpiresAt = CopilotExpiresAt cred\<rparr>
            \<and> header_Get ''Authorization'' sent = ''Bearer '' @ oauth_CopilotToken cred)
       \<and> ExchangeCalled g \<notin> set (snd (snd (snd (RoundTrip env t st req))))"
proof -
  have nv: "\<not> cached_valid (now_fast env) t \<and> \<not> cached_valid (now_locked env) t"
    using assms(4) by (auto simp: ClearCache_not_valid)
  have g: "getValidToken env t =
           (Inr (oauth_CopilotToken cred),
            t\<lparr>copilotToken :=
                Some \<lparr>Token = oauth_CopilotToken cred, ExpiresAt = CopilotExpiresAt cred\<rparr>\<rparr>,
            [ProviderCalled])"
    using nv assms(1-3) by (simp add: getValidToken_adopts)
  note r = RoundTrip_sent [OF g assms(5,6)]
  show ?thesis
    using g r by (simp add: outgoing_Authorization)
qed

text \<open>
  The theorem on a transport whose cache is cleared and whose credential carries a
  persisted token with an hour left.
\<close>

theorem persisted_token_adopted_witness:
  "fst (RoundTrip example_env
          (ClearCache (example_transport (example_credential ''tid=persisted'' 1700003600) None
             (Some \<lparr>Token = ''tid=old'', ExpiresAt = 1700009999\<rparr>)))
          [[(''Accept'', [''*/*''])]] example_request)
     = Inr (Inr \<lparr>resp_status = 200, resp_body = ''Bearer tid=persisted''\<rparr>)
   \<and> ExchangeCalled ''ghu_github_token'' \<notin> set (snd (snd (snd (RoundTrip example_env
          (ClearCache (example_transport (example_credential ''tid=persisted'' 1700003600) None
             (Some \<lparr>Token = ''tid=old'', ExpiresAt = 1700009999\<rparr>)))
          [[(''Accept'', [''*/*''])]] example_request))))"
proof -
  let ?cred = "example_credential ''tid=persisted'' 1700003600"
  let ?before = "example_transport ?cred None (Some \<lparr>Token = ''tid=old'', ExpiresAt = 1700009999\<rparr>)"
  let ?t = "ClearCache ?before"
  let ?st = "[[(''Accept'', [''*/*''])]] :: store"
  have h1: "tokenProvider ?t = (Some ?cred, None)"
    by (simp add: ClearCache_def example_transport_def)
  have h2: "RefreshToken ?cred \<noteq> []"
    by (simp add: example_credential_def)
  have h3: "\<not> IsCopilotTokenExpired (now_persisted example_env) (Some ?cred)"
    by (simp add: IsCopilotTokenExpired_def example_credential_def example_env_def word_sle_eq)
  have h4: "?t = ClearCache ?before
      \<or> (\<not> cached_valid (now_fast example_env) ?t \<and> \<not> cached_valid (now_locked example_env) ?t)"
    by simp
  have h5: "req_header example_request = Some 0"
    by (simp add: example_request_def)
  have h6: "0 < length ?st" by simp
  have e: "fst (RoundTrip example_env ?t ?st example_request)
     = Inr (Inr \<lparr>resp_status = 200, resp_body = ''Bearer tid=persisted''\<rparr>)"
    by code_simp
  from persisted_token_adopted [where ?t0.0 = ?before, OF h1 h2 h3 h4 h5 h6, of "''ghu_github_token''"] e
  show ?thesis by simp
qed

text \<open>
  C7.  \<^verbatim>\<open>RoundTrip\<close> never writes to a header map that existed before the call: the store
  before the call is a prefix of the store after it, on every path (error of
  \<^verbatim>\<open>getValidToken\<close>, panic on a nil map, call of the base).  In particular the header map
  of the caller's request holds the same headers, \<^verbatim>\<open>Authorization\<close> included, before and
  after; the token, the Copilot headers and the two purpose headers are set on a map
  allocated by the clone, and that map is what the base receives.
\<close>

theorem original_request_unchanged:
  "take (length st) (fst (snd (snd (RoundTrip env t st req)))) = st
   \<and> (req_header req = Some a \<and> a < length st \<longrightarrow>
        store_get (fst (snd (snd (RoundTrip env t st req)))) a = store_get st a)
   \<and> (req_header req = Some a \<and> a < length st \<and> getValidToken env t = (Inr token, t', eff) \<longrightarrow>
        RoundTrip env t st req =
          (Inr (base t' (req_method req) (req_url req) (outgoing_header token (st ! a))), t',
           st @ [outgoing_header token (st ! a)],
           eff @ [BaseCalled (req_method req) (req_url req) (outgoing_header token (st ! a))]))"
proof -
  let ?st' = "fst (snd (snd (RoundTrip env t st req)))"
  have p: "take (length st) ?st' = st"
    by (rule RoundTrip_store_prefix)
  have q: "store_get ?st' a = store_get st a" if "a < length st"
  proof -
    have l: "length st \<le> length ?st'"
      using p by (metis length_take min.cobounded1)
    have "?st' ! a = take (length st) ?st' ! a"
      using that by simp
    then have "?st' ! a = st ! a" using p by simp
    then show ?thesis using that l by (simp add: store_get_def)
  qed
  show ?thesis using p q by (auto simp: RoundTrip_sent)
qed

text \<open>
  The theorem on a request that carries an \<^verbatim>\<open>Authorization\<close> header of its own: it keeps
  it, while the outgoing request carries the bearer token.
\<close>

theorem original_request_unchanged_witness:
  "store_get (fst (snd (snd (RoundTrip example_env
      (example_transport (example_credential ''tid=persisted'' 1700003600) None None)
      [[(''Accept'', [''*/*'']), (''Authorization'', [''mine''])]] example_request)))) 0
     = Some [(''Accept'', [''*/*'']), (''Authorization'', [''mine''])]
   \<and> header_Get ''Authorization''
       (outgoing_header ''tid=persisted'' [(''Accept'', [''*/*'']), (''Authorization'', [''mine''])])
     = ''Bearer tid=persisted''"
proof -
  let ?t = "example_transport (example_credential ''tid=persisted'' 1700003600) None None"
  let ?st = "[[(''Accept'', [''*/*'']), (''Authorization'', [''mine''])]] :: store"
  have h: "req_header example_request = Some 0 \<and> 0 < length ?st"
    by (simp add: example_request_def)
  have s: "store_get ?st 0 = Some [(''Accept'', [''*/*'']), (''Authorization'', [''mine''])]"
    by (simp add: store_get_def)
  have o: "header_Get ''Authorization''
       (outgoing_header ''tid=persisted'' [(''Accept'', [''*/*'']), (''Authorization'', [''mine''])])
     = ''Bearer tid=persisted''"
    by (simp add: outgoing_Authorization)
  from original_request_unchanged [of ?st example_env ?t example_request 0] h s o
  show ?thesis by simp
qed

text \<open>
  C9.  On the refresh path, when the exchanger returns a token, \<^verbatim>\<open>getValidToken\<close> returns
  that token and stores it in the cache whatever the saver is (nil, succeeding or failing),
  and the result of \<^verbatim>\<open>RoundTrip\<close> is the same as without a saver: the result of the base on
  the request that carries the fresh token.
\<close>

theorem saver_failure_not_fatal:
  assumes "\<not> cached_valid (now_fast env) t" and "\<not> cached_valid (now_locked env) t"
    and "tokenProvider t = (Some cred, None)" and "RefreshToken cred \<noteq> []"
    and "IsCopilotTokenExpired (now_persisted env) (Some cred)"
    and "ExchangeForCopilotToken (unmarshal_token env)
           (token_endpoint env (exchange_request (RefreshToken cred))) = Inr fresh"
  shows "fst (getValidToken env (t\<lparr>tokenSaver := sv\<rparr>)) = Inr (Token fresh)
       \<and> copilotToken (fst (snd (getValidToken env (t\<lparr>tokenSaver := sv\<rparr>)))) = Some fresh
       \<and> fst (RoundTrip env (t\<lparr>tokenSaver := sv\<rparr>) st req) =
           fst (RoundTrip env (t\<lparr>tokenSaver := None\<rparr>) st req)
       \<and> (req_header req = Some a \<and> a < length st \<longrightarrow>
            fst (RoundTrip env (t\<lparr>tokenSaver := sv\<rparr>) st req) =
              Inr (base t (req_method req) (req_url req) (outgoing_header (Token fresh) (st ! a))))"
proof -
  have g: "fst (getValidToken env (t\<lparr>tokenSaver := sv'\<rparr>)) = Inr (Token fresh)"
    "fst (snd (getValidToken env (t\<lparr>tokenSaver := sv'\<rparr>))) =
           t\<lparr>tokenSaver := sv', copilotToken := Some fresh\<rparr>" for sv'
    using getValidToken_refreshes [OF assms] by simp_all
  have rt: "fst (RoundTrip env (t\<lparr>tokenSaver := sv'\<rparr>) st req) =
      (case req_header req of
         None \<Rightarrow> Inl NilMapAssignment
       | Some a' \<Rightarrow>
           if a' < length st
           then Inr (base t (req_method req) (req_url req) (outgoing_header (Token fresh) (st ! a')))
           else Inl NilMapAssignment)" for sv'
  proof -
    obtain eff where e: "getValidToken env (t\<lparr>tokenSaver := sv'\<rparr>) =
        (Inr (Token fresh), t\<lparr>tokenSaver := sv', copilotToken := Some fresh\<rparr>, eff)"
      using g [of sv'] by (cases "getValidToken env (t\<lparr>tokenSaver := sv'\<rparr>)") auto
    show ?thesis
    proof (cases "req_header req")
      case None
      then show ?thesis using RoundTrip_nil_header [OF e] by simp
    next
      case (Some a')
      show ?thesis
      proof (cases "a' < length st")
        case True
        then show ?thesis using Some RoundTrip_sent [OF e Some True] by simp
      next
        case False
        then have "req_header req = None \<or> (\<exists>b. req_header req = Some b \<and> length st \<le> b)"
          using Some by (simp add: not_less)
        from RoundTrip_nil_header [OF e this] show ?thesis using Some False by simp
      qed
    qed
  qed
  show ?thesis using g [of sv] rt [of sv] rt [of None] by simp
qed

text \<open>
  The theorem on a transport whose saver always fails and whose persisted token is inside
  the 60-second buffer: the send succeeds with the fresh token, which is in the cache.
\<close>

theorem saver_failure_not_fatal_witness:
  "fst (RoundTrip example_env
          (example_transport (example_credential ''tid=persisted'' 1700000030)
             (Some example_saver_fails) None)
          [[(''Accept'', [''*/*''])]] example_request)
     = Inr (Inr \<lparr>resp_status = 200, resp_body = ''Bearer tid=fresh''\<rparr>)
   \<and> copilotToken (fst (snd (getValidToken example_env
          (example_transport (example_credential ''tid=persisted'' 1700000030)
             (Some example_saver_fails) None))))
     = Some \<lparr>Token = ''tid=fresh'', ExpiresAt = 1700003600\<rparr>"
proof -
  let ?cred = "example_credential ''tid=persisted'' 1700000030"
  let ?t = "example_transport ?cred None None"
  let ?fresh = "\<lparr>Token = ''tid=fresh'', ExpiresAt = 1700003600\<rparr>"
  let ?st = "[[(''Accept'', [''*/*''])]] :: store"
  have h1: "\<not> cached_valid (now_fast example_env) ?t"
    and h2: "\<not> cached_valid (now_locked example_env) ?t"
    by (simp_all add: cached_valid_def example_transport_def)
  have h3: "tokenProvider ?t = (Some ?cred, None)"
    by (simp add: example_transport_def)
  have h4: "RefreshToken ?cred \<noteq> []"
    by (simp add: example_credential_def)
  have h5: "IsCopilotTokenExpired (now_persisted example_env) (Some ?cred)"
    by (simp add: IsCopilotTokenExpired_def example_credential_def example_env_def word_sle_eq)
  have h6: "ExchangeForCopilotToken (unmarshal_token example_env)
           (token_endpoint example_env (exchange_request (RefreshToken ?cred))) = Inr ?fresh"
    by code_simp
  have s: "?t\<lparr>tokenSaver := Some example_saver_fails\<rparr> =
      example_transport ?cred (Some example_saver_fails) None"
    by (simp add: example_transport_def)
  have h7: "req_header example_request = Some 0 \<and> 0 < length ?st"
    by (simp add: example_request_def)
  have b: "base ?t (req_method example_request) (req_url example_request)
             (outgoing_header (Token ?fresh) (?st ! 0))
     = Inr \<lparr>resp_status = 200, resp_body = ''Bearer tid=fresh''\<rparr>"
    by (simp add: example_transport_def example_base_def outgoing_Authorization)
  note th = saver_failure_not_fatal [OF h1 h2 h3 h4 h5 h6, of "Some example_saver_fails" ?st
      example_request 0]
  from th h7 have r: "fst (RoundTrip example_env (?t\<lparr>tokenSaver := Some example_saver_fails\<rparr>)
      ?st example_request) =
        Inr (base ?t (req_method example_request) (req_url example_request)
               (outgoing_header (Token ?fresh) (?st ! 0)))"
    by blast
  from th have c: "copilotToken (fst (snd (getValidToken example_env
      (?t\<lparr>tokenSaver := Some example_saver_fails\<rparr>)))) = Some ?fresh"
    by blast
  show ?thesis using r c b s by simp
qed

end
